theory Spec2Isabelle
  imports Complex_Main "HOL-Library.AList"
begin

section \<open>JavaScript values and the object store\<close>

text \<open>
  The library lib/modelme.js validates and coerces arbitrary JavaScript values. The
  embedding keeps the distinctions the code itself makes: \<open>undefined\<close> against
  \<open>null\<close>, primitives against objects, and object identity. Objects live in a store;
  a value of kind \<open>Ref\<close> is the address of one. Allocation appends to the store, so the
  fresh address is the length of the store.

  Numbers are the rationals together with NaN and the two infinities. The code computes
  nothing with numbers beyond comparisons and the remainder \<open>val % 1\<close>, both exact on
  IEEE doubles, so no rounding is involved. Strings are lists of characters and
  \<open>length\<close> counts them as JavaScript counts code units.

  Scope of the embedding: property names are taken not to be names that every object
  inherits from Object.prototype (such as \<open>toString\<close>), and not canonical array indices
  when they name a property of a plain object or a declared field, so that the
  \<open>in\<close> operator sees own properties only and \<open>for ... in\<close> enumerates in insertion
  order. Arrays are dense. Function objects are opaque: the library itself never
  calls a function found in its input or in a field's options; the methods that a
  conversion or a comparison runs (\<open>toString\<close>, \<open>valueOf\<close>) belong to the platform,
  a parameter of the embedding.
\<close>

datatype jsnum = NaN | PosInf | NegInf | Fin rat

type_synonym addr = nat

datatype jsval = Undefined | Null | JBool bool | JNum jsnum | JStr string | Ref addr

text \<open>
  A function object records its number of formal parameters (its \<open>length\<close>) and the
  value a call with no arguments returns; the second is needed only to state what the
  specification expects of a callable default value.
\<close>

datatype jsobj =
    PlainObj "(string \<times> jsval) list"
  | ArrayObj "jsval list"
  | DateObj jsnum
  | FunObj nat jsval

type_synonym heap = "jsobj list"

text \<open>An address outside the store does not occur in a running program; it is read as
  an empty object so that every function below is total.\<close>

definition obj_at :: "heap \<Rightarrow> addr \<Rightarrow> jsobj" where
  "obj_at h a = (if a < length h then h ! a else PlainObj [])"

definition alloc :: "heap \<Rightarrow> jsobj \<Rightarrow> addr \<times> heap" where
  "alloc h ob = (length h, h @ [ob])"

definition typeof :: "heap \<Rightarrow> jsval \<Rightarrow> string" where
  "typeof h v =
     (case v of
        Undefined \<Rightarrow> ''undefined''
      | Null \<Rightarrow> ''object''
      | JBool b \<Rightarrow> ''boolean''
      | JNum n \<Rightarrow> ''number''
      | JStr s \<Rightarrow> ''string''
      | Ref a \<Rightarrow> (case obj_at h a of FunObj n r \<Rightarrow> ''function'' | _ \<Rightarrow> ''object''))"

definition truthy :: "jsval \<Rightarrow> bool" where
  "truthy v =
     (case v of
        Undefined \<Rightarrow> False
      | Null \<Rightarrow> False
      | JBool b \<Rightarrow> b
      | JNum n \<Rightarrow> (case n of NaN \<Rightarrow> False | Fin q \<Rightarrow> q \<noteq> 0 | _ \<Rightarrow> True)
      | JStr s \<Rightarrow> s \<noteq> []
      | Ref a \<Rightarrow> True)"

definition isArray :: "heap \<Rightarrow> jsval \<Rightarrow> bool" where
  "isArray h v =
     (case v of Ref a \<Rightarrow> (case obj_at h a of ArrayObj xs \<Rightarrow> True | _ \<Rightarrow> False) | _ \<Rightarrow> False)"

definition instanceofDate :: "heap \<Rightarrow> jsval \<Rightarrow> bool" where
  "instanceofDate h v =
     (case v of Ref a \<Rightarrow> (case obj_at h a of DateObj t \<Rightarrow> True | _ \<Rightarrow> False) | _ \<Rightarrow> False)"

text \<open>Everything a \<open>throw\<close> of the library or of the platform can raise: the module's
  own ModelMeError with its message, a TypeError (reading a property of \<open>null\<close> or
  \<open>undefined\<close>), the SyntaxError of JSON.parse, and a thrown string.\<close>

datatype exn = ModelMeError string | TypeError | SyntaxError | Thrown string

subsection \<open>The platform\<close>

text \<open>
  Five services of the JavaScript platform are parameters of the embedding, since the
  library only calls them: the method call \<open>val.toString()\<close>, the conversion of a
  value to a string when it is concatenated with one, the relational operator on
  operands that are not both number-like, \<open>Date.parse\<close> (a time value in
  milliseconds, or NaN), and \<open>JSON.parse\<close> (\<open>None\<close> is its SyntaxError). The first
  three may run methods of the value (\<open>toString\<close>, \<open>valueOf\<close>): they may throw, they
  may change the store, and \<open>toString\<close> may return any value. A call that throws is
  modelled without the changes it made to the store before it threw.
\<close>

record host =
  callToString :: "heap \<Rightarrow> jsval \<Rightarrow> exn + jsval \<times> heap"
  toStr :: "heap \<Rightarrow> jsval \<Rightarrow> exn + string \<times> heap"
  relLess :: "heap \<Rightarrow> jsval \<Rightarrow> jsval \<Rightarrow> exn + bool \<times> heap"
  dateParse :: "string \<Rightarrow> jsnum"
  jsonParse :: "heap \<Rightarrow> string \<Rightarrow> (jsval \<times> heap) option"

text \<open>Sequencing of steps that may throw.\<close>

definition then_do :: "exn + 'a \<Rightarrow> ('a \<Rightarrow> exn + 'b) \<Rightarrow> exn + 'b" where
  "then_do r f = (case r of Inl e \<Rightarrow> Inl e | Inr x \<Rightarrow> f x)"

definition num_less :: "jsnum \<Rightarrow> jsnum \<Rightarrow> bool" where
  "num_less x y =
     (case x of
        NaN \<Rightarrow> False
      | PosInf \<Rightarrow> False
      | NegInf \<Rightarrow> (case y of NaN \<Rightarrow> False | NegInf \<Rightarrow> False | _ \<Rightarrow> True)
      | Fin p \<Rightarrow> (case y of NaN \<Rightarrow> False | PosInf \<Rightarrow> True | NegInf \<Rightarrow> False | Fin q \<Rightarrow> p < q))"

text \<open>The operands the relational operator turns into numbers without consulting a
  string: \<open>undefined\<close>, \<open>null\<close>, booleans, numbers and Date objects.\<close>

definition numberLike :: "heap \<Rightarrow> jsval \<Rightarrow> jsnum option" where
  "numberLike h v =
     (case v of
        Undefined \<Rightarrow> Some NaN
      | Null \<Rightarrow> Some (Fin 0)
      | JBool b \<Rightarrow> Some (Fin (if b then 1 else 0))
      | JNum n \<Rightarrow> Some n
      | JStr s \<Rightarrow> None
      | Ref a \<Rightarrow> (case obj_at h a of DateObj t \<Rightarrow> Some t | _ \<Rightarrow> None))"

definition js_less :: "host \<Rightarrow> heap \<Rightarrow> jsval \<Rightarrow> jsval \<Rightarrow> exn + bool \<times> heap" where
  "js_less pf h a b =
     (case numberLike h a of
        Some x \<Rightarrow>
          (case numberLike h b of
             Some y \<Rightarrow> Inr (num_less x y, h)
           | None \<Rightarrow> relLess pf h a b)
      | None \<Rightarrow> relLess pf h a b)"

definition js_greater :: "host \<Rightarrow> heap \<Rightarrow> jsval \<Rightarrow> jsval \<Rightarrow> exn + bool \<times> heap" where
  "js_greater pf h a b = js_less pf h b a"

text \<open>\<open>val.length\<close>: a TypeError on \<open>null\<close> and \<open>undefined\<close>, the number of characters
  of a string, the number of elements of an array, the number of parameters of a
  function, the own property of that name of a plain object, \<open>undefined\<close> otherwise.\<close>

type_synonym options = "(string \<times> jsval) list"

definition opt_get :: "options \<Rightarrow> string \<Rightarrow> jsval" where
  "opt_get opt k = (case map_of opt k of None \<Rightarrow> Undefined | Some v \<Rightarrow> v)"

definition get_length :: "heap \<Rightarrow> jsval \<Rightarrow> exn + jsval" where
  "get_length h v =
     (case v of
        Undefined \<Rightarrow> Inl TypeError
      | Null \<Rightarrow> Inl TypeError
      | JBool b \<Rightarrow> Inr Undefined
      | JNum n \<Rightarrow> Inr Undefined
      | JStr s \<Rightarrow> Inr (JNum (Fin (of_nat (length s))))
      | Ref a \<Rightarrow>
          (case obj_at h a of
             PlainObj kvs \<Rightarrow> Inr (opt_get kvs ''length'')
           | ArrayObj xs \<Rightarrow> Inr (JNum (Fin (of_nat (length xs))))
           | DateObj t \<Rightarrow> Inr Undefined
           | FunObj n r \<Rightarrow> Inr (JNum (Fin (of_nat n)))))"

section \<open>Built-in field validation rules\<close>

text \<open>A rule takes the value and the field's options and returns an error message or
  nothing; it may also throw. The store is read for \<open>val.length\<close>, \<open>Array.isArray\<close> and
  \<open>instanceof Date\<close>, and it is returned because a comparison or a concatenation may
  have run a method of an operand.\<close>

type_synonym rule = "heap \<Rightarrow> jsval \<Rightarrow> options \<Rightarrow> exn + string option \<times> heap"

definition maxLengthRule :: "host \<Rightarrow> rule" where
  "maxLengthRule pf h val opt =
     (if truthy (opt_get opt ''maxLength'') then
        then_do (get_length h val) (\<lambda>len.
        then_do (js_greater pf h len (opt_get opt ''maxLength'')) (\<lambda>(isGreater, h1).
          if isGreater
          then then_do (toStr pf h1 (opt_get opt ''maxLength'')) (\<lambda>(s, h2).
                 Inr (Some (''must not be greater than '' @ s @ '' characters''), h2))
          else Inr (None, h1)))
      else Inr (None, h))"

definition minLengthRule :: "host \<Rightarrow> rule" where
  "minLengthRule pf h val opt =
     (if truthy (opt_get opt ''minLength'') then
        then_do (get_length h val) (\<lambda>len.
        then_do (js_less pf h len (opt_get opt ''minLength'')) (\<lambda>(isLess, h1).
          if isLess
          then then_do (toStr pf h1 (opt_get opt ''minLength'')) (\<lambda>(s, h2).
                 Inr (Some (''must be at least '' @ s @ '' characters''), h2))
          else Inr (None, h1)))
      else Inr (None, h))"

definition nullRule :: rule where
  "nullRule h val opt =
     (if \<not> truthy (opt_get opt ''allowNull'') \<and> val = Null
      then Inr (Some ''must not be null'', h) else Inr (None, h))"

definition undefinedRule :: rule where
  "undefinedRule h val opt =
     (if \<not> truthy (opt_get opt ''allowUndefined'') \<and> typeof h val = ''undefined''
      then Inr (Some ''must be defined'', h) else Inr (None, h))"

definition minRule :: "host \<Rightarrow> rule" where
  "minRule pf h val opt =
     (if val = Null \<or> typeof h val = ''undefined'' then Inr (None, h)
      else if truthy (opt_get opt ''min'') then
        then_do (js_less pf h val (opt_get opt ''min'')) (\<lambda>(isLess, h1).
          if isLess
          then then_do (toStr pf h1 (opt_get opt ''min'')) (\<lambda>(s, h2).
                 Inr (Some (''value must be at least '' @ s), h2))
          else Inr (None, h1))
      else Inr (None, h))"

definition maxRule :: "host \<Rightarrow> rule" where
  "maxRule pf h val opt =
     (if val = Null \<or> typeof h val = ''undefined'' then Inr (None, h)
      else if truthy (opt_get opt ''max'') then
        then_do (js_greater pf h val (opt_get opt ''max'')) (\<lambda>(isGreater, h1).
          if isGreater
          then then_do (toStr pf h1 (opt_get opt ''max'')) (\<lambda>(s, h2).
                 Inr (Some (''value must not be greater than '' @ s), h2))
          else Inr (None, h1))
      else Inr (None, h))"

definition isStringRule :: rule where
  "isStringRule h val opt =
     (if val = Null \<or> typeof h val = ''undefined'' then Inr (None, h)
      else if typeof h val \<noteq> ''string'' then Inr (Some ''value must be a string'', h)
      else Inr (None, h))"

text \<open>\<open>val % 1 !== 0\<close> on a number: the remainder of a finite number is what is left
  after truncation towards zero, and it is NaN for NaN and the infinities.\<close>

definition truncate_rat :: "rat \<Rightarrow> int" where
  "truncate_rat q = (if 0 \<le> q then \<lfloor>q\<rfloor> else \<lceil>q\<rceil>)"

definition mod_one :: "jsnum \<Rightarrow> jsnum" where
  "mod_one n = (case n of Fin q \<Rightarrow> Fin (q - of_int (truncate_rat q)) | _ \<Rightarrow> NaN)"

definition num_of :: "jsval \<Rightarrow> jsnum" where
  "num_of v = (case v of JNum n \<Rightarrow> n | _ \<Rightarrow> NaN)"

definition isIntRule :: "host \<Rightarrow> rule" where
  "isIntRule pf h val opt =
     (if val = Null \<or> typeof h val = ''undefined'' then Inr (None, h)
      else if typeof h val \<noteq> ''number'' then Inr (Some ''value must be a number'', h)
      else if mod_one (num_of val) \<noteq> Fin 0
      then then_do (toStr pf h val) (\<lambda>(s, h1).
             Inr (Some (''the number '' @ s @ '' is not an integer''), h1))
      else Inr (None, h))"

definition isNumberRule :: rule where
  "isNumberRule h val opt =
     (if val = Null \<or> typeof h val = ''undefined'' then Inr (None, h)
      else if typeof h val \<noteq> ''number'' then Inr (Some ''value must be a number'', h)
      else Inr (None, h))"

definition isArrayRule :: rule where
  "isArrayRule h val opt =
     (if val = Null \<or> typeof h val = ''undefined'' then Inr (None, h)
      else if \<not> isArray h val then Inr (Some ''value is not an array'', h)
      else Inr (None, h))"

text \<open>The date rule tests \<open>val == null\<close>, which holds of \<open>null\<close> and of
  \<open>undefined\<close> and of nothing else.\<close>

definition isDateRule :: rule where
  "isDateRule h val opt =
     (if (val = Null \<or> val = Undefined) \<or> typeof h val = ''undefined'' then Inr (None, h)
      else if \<not> instanceofDate h val then Inr (Some ''value is not a date'', h)
      else Inr (None, h))"

section \<open>The default field types\<close>

text \<open>A field type has a name, an ordered list of rules and an optional coercion. A
  coercion may allocate (a copied array, a parsed date) and may throw.\<close>

type_synonym coercion = "heap \<Rightarrow> jsval \<Rightarrow> exn + jsval \<times> heap"

record fieldType =
  ft_name :: string
  rules :: "rule list"
  coerce :: "coercion option"

definition quote :: string where
  "quote = [CHR 0x27]"

text \<open>In the string coercion \<open>type\<close> is the string that \<open>typeof\<close> returned, and
  \<open>type.toString\<close> is the method every string has, so \<open>!type.toString\<close> is false.
  The coercion returns whatever \<open>val.toString()\<close> returns; the call may throw and may
  change the store.\<close>

definition hasToString :: "string \<Rightarrow> bool" where
  "hasToString s = True"

definition stringCoerce :: "host \<Rightarrow> coercion" where
  "stringCoerce pf h val =
     (let type = typeof h val in
      if val = Null \<or> type = ''undefined'' \<or> type = ''string'' \<or> \<not> hasToString type
      then Inr (val, h)
      else callToString pf h val)"

definition stringFieldType :: "host \<Rightarrow> fieldType" where
  "stringFieldType pf =
     \<lparr>ft_name = ''string'',
      rules = [maxLengthRule pf, minLengthRule pf, nullRule, undefinedRule, isStringRule],
      coerce = Some (stringCoerce pf)\<rparr>"

text \<open>The array coercion pushes every element of the array onto a new array.\<close>

definition arrayCoerce :: coercion where
  "arrayCoerce h val =
     (if val = Null \<or> typeof h val = ''undefined'' \<or> \<not> isArray h val then Inr (val, h)
      else (case val of
              Ref a \<Rightarrow>
                (case obj_at h a of
                   ArrayObj xs \<Rightarrow>
                     (let newArray = foldl (\<lambda>acc el. acc @ [el]) [] xs;
                          (n, h') = alloc h (ArrayObj newArray)
                      in Inr (Ref n, h'))
                 | _ \<Rightarrow> Inr (val, h))
            | _ \<Rightarrow> Inr (val, h)))"

definition arrayFieldType :: "host \<Rightarrow> fieldType" where
  "arrayFieldType pf =
     \<lparr>ft_name = ''array'',
      rules = [maxLengthRule pf, minLengthRule pf, nullRule, undefinedRule, isArrayRule],
      coerce = Some arrayCoerce\<rparr>"

definition intCoerce :: coercion where
  "intCoerce h val = Inr (val, h)"

definition intFieldType :: "host \<Rightarrow> fieldType" where
  "intFieldType pf =
     \<lparr>ft_name = ''int'',
      rules = [maxRule pf, minRule pf, nullRule, undefinedRule, isIntRule pf],
      coerce = Some intCoerce\<rparr>"

definition numberFieldType :: "host \<Rightarrow> fieldType" where
  "numberFieldType pf =
     \<lparr>ft_name = ''number'',
      rules = [maxRule pf, minRule pf, nullRule, undefinedRule, isNumberRule],
      coerce = Some intCoerce\<rparr>"

text \<open>\<open>new Date(millis)\<close> clips the time value: outside the range of 8.64e15
  milliseconds around the epoch the date is invalid (its time value is NaN).\<close>

definition timeClip :: "jsnum \<Rightarrow> jsnum" where
  "timeClip n =
     (case n of
        Fin q \<Rightarrow> if 8640000000000000 < \<bar>q\<bar> then NaN else Fin (of_int (truncate_rat q))
      | _ \<Rightarrow> NaN)"

text \<open>
  The datetime coercion tests \<open>type === "undefined"\<close> before the statement
  \<open>var type = typeof val\<close> has run: the declaration is hoisted, the variable still
  holds \<open>undefined\<close>, and the test compares that with the string "undefined".
\<close>

definition datetimeCoerce :: "host \<Rightarrow> coercion" where
  "datetimeCoerce pf h val =
     (let hoisted = Undefined in
      if val = Null \<or> hoisted = JStr ''undefined'' then Inr (val, h)
      else
        (let type = typeof h val in
         if type = ''string'' then
           (case val of
              JStr s \<Rightarrow>
                (let millis = dateParse pf s in
                 if millis = NaN
                 then Inl (Thrown (''not a valid date string: '' @ quote @ s @ quote))
                 else (let (n, h') = alloc h (DateObj (timeClip millis)) in Inr (Ref n, h')))
            | _ \<Rightarrow> Inr (val, h))
         else Inr (val, h)))"

definition datetimeFieldType :: "host \<Rightarrow> fieldType" where
  "datetimeFieldType pf =
     \<lparr>ft_name = ''datetime'',
      rules = [maxRule pf, minRule pf, nullRule, undefinedRule, isDateRule],
      coerce = Some (datetimeCoerce pf)\<rparr>"

section \<open>Fields\<close>

record Field =
  fieldType :: fieldType
  f_name :: string
  typeOptions :: options

text \<open>Handles the special case where a field is undefined but has a default value.\<close>

definition defaultCoerce :: "Field \<Rightarrow> heap \<Rightarrow> jsval \<Rightarrow> jsval" where
  "defaultCoerce self h val =
     (if typeof h (opt_get (typeOptions self) ''defaultValue'') \<noteq> ''undefined''
         \<and> typeof h val = ''undefined''
      then opt_get (typeOptions self) ''defaultValue''
      else val)"

definition Field_coerce :: "Field \<Rightarrow> coercion" where
  "Field_coerce self h val =
     (let afterDefault = defaultCoerce self h val in
      case coerce (fieldType self) of
        Some c \<Rightarrow> c h afterDefault
      | None \<Rightarrow> Inr (afterDefault, h))"

text \<open>The loop of \<open>Field.validate\<close>: every rule runs in order and every message that is
  truthy (a non-empty string) is collected; a rule that throws ends the loop.\<close>

fun run_rules :: "rule list \<Rightarrow> heap \<Rightarrow> jsval \<Rightarrow> options \<Rightarrow> string list
    \<Rightarrow> exn + string list \<times> heap" where
  "run_rules [] h val opt errors = Inr (errors, h)"
| "run_rules (rule # rs) h val opt errors =
     (case rule h val opt of
        Inl e \<Rightarrow> Inl e
      | Inr (currentError, h1) \<Rightarrow>
          run_rules rs h1 val opt
            (case currentError of
               None \<Rightarrow> errors
             | Some m \<Rightarrow> if m \<noteq> [] then errors @ [m] else errors))"

definition Field_validate :: "Field \<Rightarrow> heap \<Rightarrow> jsval \<Rightarrow> exn + string list \<times> heap" where
  "Field_validate self h val = run_rules (rules (fieldType self)) h val (typeOptions self) []"

section \<open>Types and the model\<close>

record Type =
  t_name :: string
  t_fields :: "(string \<times> Field) list"

record Model =
  fieldTypes :: "(string \<times> fieldType) list"
  types :: "(string \<times> Type) list"

text \<open>\<open>name in object\<close> on the own properties of a dictionary.\<close>

definition has_key :: "('k \<times> 'v) list \<Rightarrow> 'k \<Rightarrow> bool" where
  "has_key kvs k = (case map_of kvs k of None \<Rightarrow> False | Some v \<Rightarrow> True)"

definition addFieldType :: "Model \<Rightarrow> fieldType \<Rightarrow> exn + Model" where
  "addFieldType m ft =
     (if has_key (fieldTypes m) (ft_name ft)
      then Inl (ModelMeError (''The field type '' @ quote @ ft_name ft @ quote @ '' already exists''))
      else Inr (m\<lparr>fieldTypes := AList.update (ft_name ft) ft (fieldTypes m)\<rparr>))"

definition getFieldType :: "Model \<Rightarrow> string \<Rightarrow> fieldType option" where
  "getFieldType m name = map_of (fieldTypes m) name"

text \<open>The constructor of a type rejects the empty name before the model stores it.\<close>

definition Model_type :: "Model \<Rightarrow> string \<Rightarrow> exn + Model" where
  "Model_type m name =
     (if has_key (types m) name
      then Inl (ModelMeError (''A type with name '' @ quote @ name @ quote @ '' already exists''))
      else if length name = 0 then Inl (ModelMeError ''Type name must not be empty string'')
      else Inr (m\<lparr>types := AList.update name \<lparr>t_name = name, t_fields = []\<rparr> (types m)\<rparr>))"

text \<open>\<open>Type.field\<close> is a method of a type object that the model holds by reference;
  here the type is named and the updated model is returned. A name the model holds no
  type for has no counterpart in the source (there is no object to call the method
  on); it is answered with a TypeError. Options that are not given are the empty
  object.\<close>

definition Type_field :: "Model \<Rightarrow> string \<Rightarrow> string \<Rightarrow> string \<Rightarrow> options option \<Rightarrow> exn + Model" where
  "Type_field m name fieldName typeName typeOpts =
     (case map_of (types m) name of
        None \<Rightarrow> Inl TypeError
      | Some self \<Rightarrow>
          (case getFieldType m typeName of
             None \<Rightarrow> Inl (ModelMeError (''The type '' @ quote @ typeName @ quote @ '' is not valid''))
           | Some ft \<Rightarrow>
               if has_key (t_fields self) fieldName
               then Inl (ModelMeError (''The field '' @ quote @ fieldName @ quote
                          @ '' already exists on type '' @ quote @ name @ quote))
               else
                 (let newField = \<lparr>fieldType = ft, f_name = fieldName,
                                   typeOptions = (case typeOpts of Some opt \<Rightarrow> opt | None \<Rightarrow> [])\<rparr>
                  in Inr (m\<lparr>types := AList.update name
                              (self\<lparr>t_fields := AList.update fieldName newField (t_fields self)\<rparr>)
                              (types m)\<rparr>))))"

text \<open>A new model holds the four default field types and no type.\<close>

definition Model_new :: "host \<Rightarrow> Model" where
  "Model_new pf =
     \<lparr>fieldTypes = [(''string'', stringFieldType pf), (''int'', intFieldType pf),
                    (''datetime'', datetimeFieldType pf), (''array'', arrayFieldType pf)],
      types = []\<rparr>"

section \<open>Validation\<close>

text \<open>The decimal name of an array index, as \<open>for ... in\<close> enumerates it.\<close>

definition digit :: "nat \<Rightarrow> char" where
  "digit n = char_of (48 + n)"

function show_nat :: "nat \<Rightarrow> string" where
  "show_nat n = (if n < 10 then [digit n] else show_nat (n div 10) @ [digit (n mod 10)])"
  by pat_completeness auto
termination
  by (relation "measure id") auto

declare show_nat.simps [simp del]

text \<open>What \<open>for (var fieldName in obj)\<close> enumerates, each name with \<open>obj[fieldName]\<close>:
  the properties of a plain object, the indices of an array or of a string, and
  nothing for \<open>null\<close>, \<open>undefined\<close>, numbers, booleans, dates and functions.\<close>

definition enum_props :: "heap \<Rightarrow> jsval \<Rightarrow> (string \<times> jsval) list" where
  "enum_props h v =
     (case v of
        Ref a \<Rightarrow>
          (case obj_at h a of
             PlainObj kvs \<Rightarrow> kvs
           | ArrayObj xs \<Rightarrow> map (\<lambda>i. (show_nat i, xs ! i)) [0..<length xs]
           | _ \<Rightarrow> [])
      | JStr s \<Rightarrow> map (\<lambda>i. (show_nat i, JStr [s ! i])) [0..<length s]
      | _ \<Rightarrow> [])"

text \<open>An entry of the field summary: \<open>{ value: ___, field: ___ }\<close>, the value
  \<open>undefined\<close> when the name does not appear in the object and the field absent when
  the type does not declare it.\<close>

record fieldInfo =
  info_value :: jsval
  info_field :: "Field option"

text \<open>The bodies of the two loops of \<open>getFieldSummary\<close>: the first stores
  \<open>{ value: obj[fieldName] }\<close> under a name the object has, the second sets the field
  of an entry that exists and stores \<open>{ field: ... }\<close> otherwise.\<close>

definition summaryValue :: "(string \<times> fieldInfo) list \<Rightarrow> string \<times> jsval \<Rightarrow> (string \<times> fieldInfo) list" where
  "summaryValue fieldInfos entry =
     (case entry of (fieldName, v) \<Rightarrow>
        AList.update fieldName \<lparr>info_value = v, info_field = None\<rparr> fieldInfos)"

definition summaryField :: "(string \<times> fieldInfo) list \<Rightarrow> string \<times> Field \<Rightarrow> (string \<times> fieldInfo) list" where
  "summaryField fieldInfos entry =
     (case entry of (fieldName, f) \<Rightarrow>
        if has_key fieldInfos fieldName
        then AList.map_entry fieldName (\<lambda>info. info\<lparr>info_field := Some f\<rparr>) fieldInfos
        else AList.update fieldName \<lparr>info_value = Undefined, info_field = Some f\<rparr> fieldInfos)"

text \<open>The type is what \<open>types[typeName]\<close> gave; reading \<open>type.fields\<close> of
  \<open>undefined\<close> is a TypeError, after the first loop has run.\<close>

definition getFieldSummary :: "heap \<Rightarrow> jsval \<Rightarrow> Type option \<Rightarrow> exn + (string \<times> fieldInfo) list" where
  "getFieldSummary h obj type =
     (let fieldInfos = foldl summaryValue [] (enum_props h obj)
      in case type of
           None \<Rightarrow> Inl TypeError
         | Some t \<Rightarrow> Inr (foldl summaryField fieldInfos (t_fields t)))"

text \<open>An error entry \<open>{ field, message }\<close>. The message is a rule's text, or
  whatever the \<open>catch\<close> clause caught.\<close>

datatype errmsg = Text string | Caught exn

record validationError =
  field :: string
  message :: errmsg

record validationResult =
  entity :: jsval
  errors :: "validationError list"

text \<open>\<open>result[fieldName] = coerced\<close> on the object at an address.\<close>

definition set_prop :: "heap \<Rightarrow> addr \<Rightarrow> string \<Rightarrow> jsval \<Rightarrow> heap" where
  "set_prop h a k v =
     (case obj_at h a of
        PlainObj kvs \<Rightarrow> h[a := PlainObj (AList.update k v kvs)]
      | _ \<Rightarrow> h)"

text \<open>One turn of the loop over the field summary. The state is the list of errors
  and the store; \<open>result\<close> is the address of the object under construction. The
  assignment to the result is inside the \<open>try\<close> block after the rules have run, so it
  happens whenever neither the coercion nor a rule has thrown.\<close>

definition validateField :: "addr \<Rightarrow> validationError list \<times> heap \<Rightarrow> string \<times> fieldInfo
    \<Rightarrow> validationError list \<times> heap" where
  "validateField result st entry =
     (case st of (errs, h) \<Rightarrow>
      case entry of (fieldName, info) \<Rightarrow>
        (case info_field info of
           None \<Rightarrow> (errs, h)
         | Some f \<Rightarrow>
             (case Field_coerce f h (info_value info) of
                Inl ex \<Rightarrow> (errs @ [\<lparr>field = fieldName, message = Caught ex\<rparr>], h)
              | Inr (coerced, h1) \<Rightarrow>
                  (case Field_validate f h1 coerced of
                     Inl ex \<Rightarrow> (errs @ [\<lparr>field = fieldName, message = Caught ex\<rparr>], h1)
                   | Inr (fieldErrors, h2) \<Rightarrow>
                       (errs @ map (\<lambda>err. \<lparr>field = fieldName, message = Text err\<rparr>) fieldErrors,
                        set_prop h2 result fieldName coerced)))))"

text \<open>
  The guard of \<open>validate\<close> is written \<open>!typeName in types\<close>. Negation binds tighter
  than \<open>in\<close>: the test is whether the boolean \<open>!typeName\<close>, as a property name, is a
  key of \<open>types\<close>, that is the name "true" for the empty type name and "false" for
  every other.
\<close>

definition typeGuard :: "Model \<Rightarrow> string \<Rightarrow> bool" where
  "typeGuard m typeName = has_key (types m) (if typeName = [] then ''true'' else ''false'')"

text \<open>Convert a json string to an object and reject other non-objects.\<close>

definition normalize :: "host \<Rightarrow> heap \<Rightarrow> jsval \<Rightarrow> exn + jsval \<times> heap" where
  "normalize pf h data =
     (case data of
        JStr s \<Rightarrow> (case jsonParse pf h s of None \<Rightarrow> Inl SyntaxError | Some r \<Rightarrow> Inr r)
      | _ \<Rightarrow>
          if typeof h data \<noteq> ''object''
          then Inl (ModelMeError
                 ''Value passed to data param of validate() function must be an object or a json string'')
          else Inr (data, h))"

text \<open>Coerce the final object and check for validation errors: the part of
  \<open>validate\<close> from \<open>var result = {}\<close> to the returned object.\<close>

definition validateSummary :: "heap \<Rightarrow> (string \<times> fieldInfo) list \<Rightarrow> validationResult \<times> heap" where
  "validateSummary h1 fieldSummary =
     (let (result, h2) = alloc h1 (PlainObj []);
          (errs, h3) = foldl (validateField result) ([], h2) fieldSummary
      in (\<lparr>entity = (if 0 < length errs then Null else Ref result), errors = errs\<rparr>, h3))"

definition validate :: "host \<Rightarrow> Model \<Rightarrow> heap \<Rightarrow> jsval \<Rightarrow> string
    \<Rightarrow> exn + validationResult \<times> heap" where
  "validate pf m h data typeName =
     (if typeGuard m typeName
      then Inl (ModelMeError (''The type '' @ quote @ typeName @ quote @ '' does not exist''))
      else
        (case normalize pf h data of
           Inl e \<Rightarrow> Inl e
         | Inr (obj, h1) \<Rightarrow>
             (case getFieldSummary h1 obj (map_of (types m) typeName) of
                Inl e \<Rightarrow> Inl e
              | Inr fieldSummary \<Rightarrow> Inr (validateSummary h1 fieldSummary))))"

section \<open>Notions used to state the properties\<close>

text \<open>Coercing a value and coercing the result again, in the store the first coercion
  left.\<close>

definition coerceTwice :: "Field \<Rightarrow> coercion" where
  "coerceTwice f h v =
     (case Field_coerce f h v of Inl e \<Rightarrow> Inl e | Inr (v', h') \<Rightarrow> Field_coerce f h' v')"

text \<open>The field types a new model registers.\<close>

definition defaultFieldTypes :: "host \<Rightarrow> fieldType list" where
  "defaultFieldTypes pf =
     [stringFieldType pf, intFieldType pf, datetimeFieldType pf, arrayFieldType pf]"

text \<open>The default value as the specification describes it: a callable default is
  called with no arguments and its result is used, any other is used literally.\<close>

definition callable :: "heap \<Rightarrow> jsval \<Rightarrow> bool" where
  "callable h v = (typeof h v = ''function'')"

definition call0 :: "heap \<Rightarrow> jsval \<Rightarrow> jsval" where
  "call0 h v =
     (case v of
        Ref a \<Rightarrow> (case obj_at h a of FunObj n r \<Rightarrow> r | _ \<Rightarrow> Undefined)
      | _ \<Rightarrow> Undefined)"

definition specDefault :: "heap \<Rightarrow> jsval \<Rightarrow> jsval" where
  "specDefault h d = (if callable h d then call0 h d else d)"

text \<open>\<open>obj[k]\<close> for an own enumerable property, \<open>undefined\<close> when there is none.\<close>

definition get_prop :: "heap \<Rightarrow> jsval \<Rightarrow> string \<Rightarrow> jsval" where
  "get_prop h v k = opt_get (enum_props h v) k"

text \<open>The field summary of an object without properties: every declared field, its
  value absent.\<close>

definition absentSummary :: "Type \<Rightarrow> (string \<times> fieldInfo) list" where
  "absentSummary t =
     map (\<lambda>(fieldName, f). (fieldName, \<lparr>info_value = Undefined, info_field = Some f\<rparr>)) (t_fields t)"

text \<open>A field of one of the field types of this library.\<close>

definition builtin :: "host \<Rightarrow> Field \<Rightarrow> bool" where
  "builtin pf f = (fieldType f \<in> set (numberFieldType pf # defaultFieldTypes pf))"









section \<open>Examples\<close>

text \<open>
  A host for evaluating examples. The examples below never call \<open>toString\<close>, never
  convert a value to a string, never compare operands that are not number-like, and
  never parse a date or JSON text, so they do not depend on what this host answers.
\<close>

definition exampleHost :: host where
  "exampleHost =
     \<lparr>callToString = (\<lambda>h v. Inr (v, h)),
      toStr = (\<lambda>h v. Inr (case v of JStr s \<Rightarrow> s | _ \<Rightarrow> [], h)),
      relLess = (\<lambda>h a b. Inr (False, h)),
      dateParse = (\<lambda>s. NaN),
      jsonParse = (\<lambda>h s. None)\<rparr>"

definition the_model :: "exn + Model \<Rightarrow> Model" where
  "the_model r = (case r of Inr m \<Rightarrow> m | Inl e \<Rightarrow> \<lparr>fieldTypes = [], types = []\<rparr>)"

text \<open>
  The recursive person model of the tests (createRecursivePersonModel), without the
  generated default of \<open>created\<close>. The element type descriptor
  \<open>{ mode: "complex", type: "Person" }\<close> is the object at address 0 and the default
  value \<open>[]\<close> of \<open>friends\<close> the array at address 1 of \<open>personHeap\<close>.
\<close>

definition personModel :: "exn + Model" where
  "personModel =
     then_do (Model_type (Model_new exampleHost) ''Person'') (\<lambda>m.
     then_do (Type_field m ''Person'' ''name'' ''string''
                (Some [(''minLength'', JNum (Fin 1)), (''maxLength'', JNum (Fin 20))])) (\<lambda>m.
     then_do (Type_field m ''Person'' ''age'' ''int''
                (Some [(''min'', JNum (Fin 0)), (''max'', JNum (Fin 200))])) (\<lambda>m.
     then_do (Type_field m ''Person'' ''created'' ''datetime'' None) (\<lambda>m.
     Type_field m ''Person'' ''friends'' ''array''
                (Some [(''elementType'', Ref 0), (''defaultValue'', Ref 1)])))))"

text \<open>
  The input at address 5 is the person Graeme, created at the Date object at address
  4, with one friend, the object at address 2. The friend has the name \<open>null\<close>, a
  string for an age, and a creation date given as text.
\<close>

definition personHeap :: heap where
  "personHeap =
     [PlainObj [(''mode'', JStr ''complex''), (''type'', JStr ''Person'')],
      ArrayObj [],
      PlainObj [(''name'', Null), (''age'', JStr ''old''),
                (''created'', JStr ''2014-01-01 12:00'')],
      ArrayObj [Ref 2],
      DateObj (Fin 1388577600000),
      PlainObj [(''name'', JStr ''Graeme''), (''age'', JNum (Fin 27)),
                (''created'', Ref 4), (''friends'', Ref 3)]]"

text \<open>The model of the test allowNull, with a maximal length added to the field.\<close>

definition nullableModel :: "exn + Model" where
  "nullableModel =
     then_do (Model_type (Model_new exampleHost) ''Person'') (\<lambda>m.
     Type_field m ''Person'' ''name'' ''string''
       (Some [(''allowNull'', JBool True), (''maxLength'', JNum (Fin 20))]))"

definition nullableField :: Field where
  "nullableField =
     \<lparr>fieldType = stringFieldType exampleHost, f_name = ''name'',
      typeOptions = [(''allowNull'', JBool True), (''maxLength'', JNum (Fin 20))]\<rparr>"

definition nullNameHeap :: heap where
  "nullNameHeap = [PlainObj [(''name'', Null)]]"

text \<open>An integer field whose default value is \<open>function() { return 5; }\<close>, the
  function object at address 0 of \<open>generatorHeap\<close>.\<close>

definition generatorField :: Field where
  "generatorField =
     \<lparr>fieldType = intFieldType exampleHost, f_name = ''count'',
      typeOptions = [(''defaultValue'', Ref 0)]\<rparr>"

definition generatorHeap :: heap where
  "generatorHeap = [FunObj 0 (JNum (Fin 5))]"

text \<open>
  The simple person model of the tests (createSimplePersonModel): the default value of
  the datetime field \<open>created\<close> is a function that returns a date. The function is the
  object at address 1 of \<open>simplePersonHeap\<close> and the date it returns the one at
  address 0; the input at address 2 gives a name and an age and no creation date.
\<close>

definition simplePersonModel :: "exn + Model" where
  "simplePersonModel =
     then_do (Model_type (Model_new exampleHost) ''Person'') (\<lambda>m.
     then_do (Type_field m ''Person'' ''name'' ''string''
                (Some [(''minLength'', JNum (Fin 1)), (''maxLength'', JNum (Fin 20))])) (\<lambda>m.
     then_do (Type_field m ''Person'' ''age'' ''int''
                (Some [(''min'', JNum (Fin 0)), (''max'', JNum (Fin 200))])) (\<lambda>m.
     Type_field m ''Person'' ''created'' ''datetime'' (Some [(''defaultValue'', Ref 1)]))))"

definition createdField :: Field where
  "createdField =
     \<lparr>fieldType = datetimeFieldType exampleHost, f_name = ''created'',
      typeOptions = [(''defaultValue'', Ref 1)]\<rparr>"

definition simplePersonHeap :: heap where
  "simplePersonHeap =
     [DateObj (Fin 0),
      FunObj 0 (Ref 0),
      PlainObj [(''name'', JStr ''Graeme''), (''age'', JNum (Fin 27))]]"

text \<open>A model that declares a type named "false" before the type Person.\<close>

definition shadowedModel :: "exn + Model" where
  "shadowedModel =
     then_do (Model_type (Model_new exampleHost) ''false'') (\<lambda>m.
     then_do (Model_type m ''Person'') (\<lambda>m.
     Type_field m ''Person'' ''name'' ''string'' None))"




section \<open>Basic facts\<close>

lemma typeof_undefined_iff: "(typeof h v = ''undefined'') = (v = Undefined)"
  by (simp add: typeof_def split: jsval.splits jsobj.splits)

lemma typeof_string_iff: "(typeof h v = ''string'') = (\<exists>s. v = JStr s)"
  by (simp add: typeof_def split: jsval.splits jsobj.splits)


lemma builtin_coerce_undefined:
  "stringCoerce pf h Undefined = Inr (Undefined, h)" "intCoerce h Undefined = Inr (Undefined, h)"
  "datetimeCoerce pf h Undefined = Inr (Undefined, h)"
  "arrayCoerce h Undefined = Inr (Undefined, h)"
  by (simp_all add: stringCoerce_def intCoerce_def datetimeCoerce_def arrayCoerce_def typeof_def)

text \<open>The rules that guard against \<open>null\<close> and \<open>undefined\<close> before they look at the
  value: every format rule, and the bounds \<open>min\<close> and \<open>max\<close>.\<close>

lemma guarded_rules_ignore_absent:
  assumes "v = Null \<or> v = Undefined"
  shows "minRule pf h v opt = Inr (None, h)" "maxRule pf h v opt = Inr (None, h)"
    "isStringRule h v opt = Inr (None, h)" "isIntRule pf h v opt = Inr (None, h)"
    "isNumberRule h v opt = Inr (None, h)" "isArrayRule h v opt = Inr (None, h)"
    "isDateRule h v opt = Inr (None, h)"
  using assms
  by (auto simp: minRule_def maxRule_def isStringRule_def isIntRule_def isNumberRule_def
      isArrayRule_def isDateRule_def typeof_def)

text \<open>Validating \<open>null\<close> against a field of this library that sets neither length
  bound: the null rule alone decides.\<close>

lemma null_without_length_bounds:
  assumes "builtin pf f"
    and "\<not> truthy (opt_get (typeOptions f) ''maxLength'')"
    and "\<not> truthy (opt_get (typeOptions f) ''minLength'')"
  shows "Field_validate f h Null =
     Inr (if truthy (opt_get (typeOptions f) ''allowNull'') then [] else [''must not be null''], h)"
  using assms
  by (auto simp: builtin_def defaultFieldTypes_def Field_validate_def numberFieldType_def
      stringFieldType_def intFieldType_def datetimeFieldType_def arrayFieldType_def
      guarded_rules_ignore_absent maxLengthRule_def minLengthRule_def nullRule_def
      undefinedRule_def typeof_def)

text \<open>Coercing an absent value: the default value, when the options define one, goes
  to the coercion of the field type as it is; without one, the field types of this
  library leave the absent value absent.\<close>

lemma absent_value_coercion:
  "Field_coerce f h Undefined =
     (case coerce (fieldType f) of
        Some c \<Rightarrow> c h (opt_get (typeOptions f) ''defaultValue'')
      | None \<Rightarrow> Inr (opt_get (typeOptions f) ''defaultValue'', h))"
  by (cases "opt_get (typeOptions f) ''defaultValue'' = Undefined")
     (simp_all add: Field_coerce_def defaultCoerce_def typeof_undefined_iff Let_def
        split: option.splits)

lemma absent_value_stays_absent:
  assumes "opt_get (typeOptions f) ''defaultValue'' = Undefined" and "builtin pf f"
  shows "Field_coerce f h Undefined = Inr (Undefined, h)"
  using assms
  by (auto simp: absent_value_coercion builtin_def defaultFieldTypes_def numberFieldType_def
      stringFieldType_def intFieldType_def datetimeFieldType_def arrayFieldType_def
      builtin_coerce_undefined)

text \<open>A type name that is not declared, when the guard does not fire and the data is
  accepted: the call throws a TypeError.\<close>

lemma undeclared_type_TypeError:
  assumes "map_of (types m) typeName = None" and "\<not> typeGuard m typeName"
    and "normalize pf h data = Inr (obj, h1)"
  shows "validate pf m h data typeName = Inl TypeError"
  using assms by (simp add: validate_def getFieldSummary_def)

text \<open>The person example, evaluated: no error is reported, the entity is the new
  object at address 6 and its array of friends the new array at address 7.\<close>

lemma validate_person_example:
  "validate exampleHost (the_model personModel) personHeap (Ref 5) ''Person'' =
     Inr (\<lparr>entity = Ref 6, errors = []\<rparr>,
          personHeap @
          [PlainObj [(''name'', JStr ''Graeme''), (''age'', JNum (Fin 27)),
                     (''created'', Ref 4), (''friends'', Ref 7)],
           ArrayObj [Ref 2]])"
  by code_simp

lemma update_fresh: "k \<notin> fst ` set al \<Longrightarrow> AList.update k v al = al @ [(k, v)]"
  by (induction al) auto

lemma has_key_iff: "has_key kvs k = (k \<in> fst ` set kvs)"
  by (simp add: has_key_def map_of_eq_None_iff split: option.splits)
     (metis map_of_eq_None_iff option.distinct(1))






lemma declared_fields_summary:
  assumes "distinct (map fst fs)" and "fst ` set acc \<inter> fst ` set fs = {}"
  shows "foldl summaryField acc fs
         = acc @ map (\<lambda>(fieldName, f). (fieldName, \<lparr>info_value = Undefined, info_field = Some f\<rparr>)) fs"
  using assms
proof (induction fs arbitrary: acc)
  case Nil
  then show ?case by simp
next
  case (Cons p fs)
  obtain k f where p: "p = (k, f)" by (cases p)
  from Cons.prems p have fresh: "k \<notin> fst ` set acc" by auto
  let ?acc' = "acc @ [(k, \<lparr>info_value = Undefined, info_field = Some f\<rparr>)]"
  have disj: "fst ` set ?acc' \<inter> fst ` set fs = {}"
    using Cons.prems p by auto
  have dist: "distinct (map fst fs)" using Cons.prems by simp
  show ?case
    using Cons.IH [OF dist disj] fresh p
    by (simp add: summaryField_def has_key_iff update_fresh)
qed

lemma summary_of_null:
  assumes "distinct (map fst (t_fields t))"
  shows "getFieldSummary h Null (Some t) = Inr (absentSummary t)"
  using declared_fields_summary [OF assms, of "[]"]
  by (simp add: getFieldSummary_def enum_props_def absentSummary_def)

lemma summary_empty_object:
  assumes "a < length h" and "h ! a = PlainObj []"
  shows "getFieldSummary h (Ref a) ty = getFieldSummary h Null ty"
  using assms by (simp add: getFieldSummary_def enum_props_def obj_at_def)

lemma normalize_object:
  "normalize pf h Null = Inr (Null, h)"
  "a < length h \<Longrightarrow> h ! a = PlainObj kvs \<Longrightarrow> normalize pf h (Ref a) = Inr (Ref a, h)"
  by (simp_all add: normalize_def typeof_def obj_at_def)

text \<open>Where the guard on the type name does not fire, the root \<open>null\<close> is validated as
  an object without properties is: every declared field with an absent value.\<close>

lemma null_root_as_empty_object:
  assumes decl: "map_of (types m) typeName = Some t"
    and dist: "distinct (map fst (t_fields t))"
    and a: "a < length h" and empty: "h ! a = PlainObj []"
  shows "validate pf m h Null typeName = validate pf m h (Ref a) typeName"
    and "\<not> typeGuard m typeName \<Longrightarrow>
          validate pf m h Null typeName = Inr (validateSummary h (absentSummary t))"
proof -
  show "validate pf m h Null typeName = validate pf m h (Ref a) typeName"
    using a empty
    by (simp add: validate_def normalize_object summary_empty_object)
  show "validate pf m h Null typeName = Inr (validateSummary h (absentSummary t))"
    if "\<not> typeGuard m typeName"
    using that by (simp add: validate_def normalize_object decl summary_of_null [OF dist])
qed
















lemma then_do_simps: "then_do (Inr x) f = f x" "then_do (Inl e) f = Inl e"
  by (simp_all add: then_do_def)




















text \<open>The nullable example, evaluated: the one error is the TypeError the rules threw.\<close>

lemma validate_nullable_example:
  "validate exampleHost (the_model nullableModel) nullNameHeap (Ref 0) ''Person'' =
     Inr (\<lparr>entity = Null, errors = [\<lparr>field = ''name'', message = Caught TypeError\<rparr>]\<rparr>,
          nullNameHeap @ [PlainObj []])"
  by code_simp




section \<open>The claims\<close>

text \<open>
  C1. The claim: the elements of an array field whose element type is complex are
  validated against the named type, and their errors appear in the parent's list under
  a path such as \<open>friends[0].name\<close>. The code does not do this. In the person example
  the friend at address 2 has a \<open>null\<close> name, an age that is not a number and a date
  given as text; validation reports no error, and the array of friends in the entity
  holds the address of that same, unchanged object.
\<close>

theorem complex_elements_not_validated:
  "validate exampleHost (the_model personModel) personHeap (Ref 5) ''Person'' =
     Inr (\<lparr>entity = Ref 6, errors = []\<rparr>,
          personHeap @
          [PlainObj [(''name'', JStr ''Graeme''), (''age'', JNum (Fin 27)),
                     (''created'', Ref 4), (''friends'', Ref 7)],
           ArrayObj [Ref 2]])
   \<and> obj_at personHeap 2 =
       PlainObj [(''name'', Null), (''age'', JStr ''old''),
                 (''created'', JStr ''2014-01-01 12:00'')]
   \<and> get_prop personHeap (opt_get (typeOptions
         (case map_of (t_fields (case map_of (types (the_model personModel)) ''Person'' of
                                   Some t \<Rightarrow> t)) ''friends'' of Some f \<Rightarrow> f))
         ''elementType'') ''mode'' = JStr ''complex''"
  by code_simp

text \<open>
  C2. Whenever \<open>validate\<close> returns, the entity is \<open>null\<close> exactly when the list of
  errors is not empty: one of the two is present and never both.
\<close>

theorem entity_null_iff_errors:
  "validate pf m h data typeName = Inr (r, h') \<Longrightarrow>
     (entity r = Null) = (errors r \<noteq> [])
     \<and> (entity r \<noteq> Null \<or> errors r \<noteq> [])
     \<and> \<not> (entity r \<noteq> Null \<and> errors r \<noteq> [])"
  by (auto simp: validate_def validateSummary_def alloc_def
      split: if_splits sum.splits prod.splits)

theorem entity_null_iff_errors_witness:
  "validate exampleHost (the_model personModel) personHeap (Ref 5) ''Person'' =
       Inr (\<lparr>entity = Ref 6, errors = []\<rparr>,
            personHeap @
            [PlainObj [(''name'', JStr ''Graeme''), (''age'', JNum (Fin 27)),
                       (''created'', Ref 4), (''friends'', Ref 7)],
             ArrayObj [Ref 2]])
   \<and> (entity \<lparr>entity = Ref 6, errors = []\<rparr> = Null)
       = (errors \<lparr>entity = Ref 6, errors = []\<rparr> \<noteq> [])
   \<and> validate exampleHost (the_model nullableModel) nullNameHeap (Ref 0) ''Person'' =
       Inr (\<lparr>entity = Null, errors = [\<lparr>field = ''name'', message = Caught TypeError\<rparr>]\<rparr>,
            nullNameHeap @ [PlainObj []])
   \<and> (entity \<lparr>entity = Null, errors = [\<lparr>field = ''name'', message = Caught TypeError\<rparr>]\<rparr> = Null)
       = (errors \<lparr>entity = Null, errors = [\<lparr>field = ''name'', message = Caught TypeError\<rparr>]\<rparr>
            \<noteq> [])"
  using entity_null_iff_errors [OF validate_person_example]
    entity_null_iff_errors [OF validate_nullable_example]
    validate_person_example validate_nullable_example
  by simp

text \<open>
  C3. The claim: coercing an absent value yields the default, a callable default being
  called and its result used. The code never calls the default. For the integer field
  whose default is \<open>function() { return 5; }\<close> the coercion of \<open>undefined\<close> returns the
  function object itself, not 5. In the simple person model of the tests the default
  of \<open>created\<close> is a function that returns a date: coercing the absent field gives the
  function, the date rule rejects it, and validating a person without a creation date
  fails with "value is not a date".
\<close>

theorem callable_default_not_called:
  "callable generatorHeap (opt_get (typeOptions generatorField) ''defaultValue'')
   \<and> specDefault generatorHeap (opt_get (typeOptions generatorField) ''defaultValue'') = JNum (Fin 5)
   \<and> Field_coerce generatorField generatorHeap Undefined = Inr (Ref 0, generatorHeap)
   \<and> Field_coerce generatorField generatorHeap Undefined
       \<noteq> Inr (specDefault generatorHeap (opt_get (typeOptions generatorField) ''defaultValue''),
              generatorHeap)
   \<and> callable simplePersonHeap (opt_get (typeOptions createdField) ''defaultValue'')
   \<and> specDefault simplePersonHeap (opt_get (typeOptions createdField) ''defaultValue'') = Ref 0
   \<and> instanceofDate simplePersonHeap (Ref 0)
   \<and> Field_coerce createdField simplePersonHeap Undefined = Inr (Ref 1, simplePersonHeap)
   \<and> Field_validate createdField simplePersonHeap (Ref 1)
       = Inr ([''value is not a date''], simplePersonHeap)
   \<and> validate exampleHost (the_model simplePersonModel) simplePersonHeap (Ref 2) ''Person'' =
       Inr (\<lparr>entity = Null,
              errors = [\<lparr>field = ''created'', message = Text ''value is not a date''\<rparr>]\<rparr>,
            simplePersonHeap @
            [PlainObj [(''name'', JStr ''Graeme''), (''age'', JNum (Fin 27)),
                       (''created'', Ref 1)]])"
  by code_simp

text \<open>
  C4. The claim: \<open>validate\<close> with a type name that was not declared fails at once with
  the error "The type ... does not exist". Because of the precedence of \<open>!\<close> over
  \<open>in\<close> the guard does not test the type name. With the declared type Person and the
  undeclared name Nope, an object as data gets as far as the field summary and fails
  there with a TypeError, and a number as data is rejected with the error about the
  data parameter.
\<close>

theorem undeclared_type_not_reported:
  "has_key (types (the_model personModel)) ''Person''
   \<and> \<not> has_key (types (the_model personModel)) ''Nope''
   \<and> validate exampleHost (the_model personModel) personHeap (Ref 5) ''Nope'' = Inl TypeError
   \<and> validate exampleHost (the_model personModel) personHeap (JNum (Fin 5)) ''Nope'' =
       Inl (ModelMeError
         ''Value passed to data param of validate() function must be an object or a json string'')"
  by code_simp

text \<open>
  C5. The claim: every bound and format rule returns no error on \<open>null\<close> and on an
  absent value, whatever the options. The two length rules read \<open>val.length\<close> without
  the guard the other rules have: with the option set they throw a TypeError on
  \<open>null\<close> and on \<open>undefined\<close>.
\<close>

theorem length_rules_throw_on_absent:
  "maxLengthRule pf h Null [(''maxLength'', JNum (Fin 5))] = Inl TypeError
   \<and> maxLengthRule pf h Undefined [(''maxLength'', JNum (Fin 5))] = Inl TypeError
   \<and> minLengthRule pf h Null [(''minLength'', JNum (Fin 1))] = Inl TypeError
   \<and> minLengthRule pf h Undefined [(''minLength'', JNum (Fin 1))] = Inl TypeError"
  by (simp add: maxLengthRule_def minLengthRule_def opt_get_def truthy_def get_length_def
      then_do_simps)




text \<open>
  C7. The claim: with \<open>allowNull: true\<close>, validating \<open>null\<close> yields no error for the
  field, whatever its other options. For a string field with \<open>allowNull: true\<close> and
  \<open>maxLength: 20\<close> the rules throw a TypeError on \<open>null\<close>, and \<open>validate\<close> reports it
  as an error of the field.
\<close>

theorem allowNull_with_maxLength_fails:
  "Field_validate nullableField nullNameHeap Null = Inl TypeError
   \<and> validate exampleHost (the_model nullableModel) nullNameHeap (Ref 0) ''Person'' =
       Inr (\<lparr>entity = Null, errors = [\<lparr>field = ''name'', message = Caught TypeError\<rparr>]\<rparr>,
            nullNameHeap @ [PlainObj []])"
  by code_simp

text \<open>
  C8. For a string and a string field, a number and an integer field, a Date object
  and a datetime field, coercion returns the value itself and leaves the store as it
  is, so coercing the result again gives the same result.
\<close>

theorem coerce_idempotent:
  assumes "(fieldType f = stringFieldType pf \<and> typeof h v = ''string'')
         \<or> (fieldType f = intFieldType pf \<and> typeof h v = ''number'')
         \<or> (fieldType f = datetimeFieldType pf \<and> instanceofDate h v)"
  shows "Field_coerce f h v = Inr (v, h) \<and> coerceTwice f h v = Field_coerce f h v"
proof -
  have nu: "v \<noteq> Undefined"
    using assms by (auto simp: typeof_def instanceofDate_def)
  have dc: "defaultCoerce f h v = v"
    using nu by (simp add: defaultCoerce_def typeof_undefined_iff)
  have "Field_coerce f h v = Inr (v, h)"
    using assms dc
    by (auto simp: Field_coerce_def stringFieldType_def intFieldType_def datetimeFieldType_def
        stringCoerce_def intCoerce_def datetimeCoerce_def instanceofDate_def typeof_string_iff
        split: jsval.splits)
  then show ?thesis
    by (simp add: coerceTwice_def)
qed

theorem coerce_idempotent_witness:
  "coerceTwice \<lparr>fieldType = stringFieldType exampleHost, f_name = ''name'', typeOptions = []\<rparr>
      personHeap (JStr ''Graeme'')
     = Inr (JStr ''Graeme'', personHeap)
   \<and> coerceTwice \<lparr>fieldType = intFieldType exampleHost, f_name = ''age'', typeOptions = []\<rparr>
      personHeap (JNum (Fin 27))
     = Inr (JNum (Fin 27), personHeap)
   \<and> coerceTwice \<lparr>fieldType = datetimeFieldType exampleHost, f_name = ''created'', typeOptions = []\<rparr>
      personHeap (Ref 4)
     = Inr (Ref 4, personHeap)"
  using
    coerce_idempotent [of "\<lparr>fieldType = stringFieldType exampleHost, f_name = ''name'', typeOptions = []\<rparr>"
      exampleHost personHeap "JStr ''Graeme''"]
    coerce_idempotent [of "\<lparr>fieldType = intFieldType exampleHost, f_name = ''age'', typeOptions = []\<rparr>"
      exampleHost personHeap "JNum (Fin 27)"]
    coerce_idempotent [of "\<lparr>fieldType = datetimeFieldType exampleHost, f_name = ''created'', typeOptions = []\<rparr>"
      exampleHost personHeap "Ref 4"]
  by (simp add: typeof_def instanceofDate_def obj_at_def personHeap_def)

text \<open>
  C9. The claim: for a declared type, \<open>validate\<close> accepts the root \<open>null\<close> and
  processes it as an object without properties, with a result for every declared
  field. This fails in a model that also declares a type named "false": the guard
  \<open>!typeName in types\<close> finds that name and the call throws "The type 'Person' does
  not exist" although Person is declared, for \<open>null\<close> as for an empty object. In the
  person model, where the guard does not fire, \<open>null\<close> is accepted and every declared
  field is validated with an absent value: the name fails in the length rule, the
  age and the creation date must be defined, and the friends get their default.
\<close>

theorem null_root_rejected_by_type_guard:
  "has_key (types (the_model shadowedModel)) ''Person''
   \<and> validate exampleHost (the_model shadowedModel) [PlainObj []] Null ''Person'' =
       Inl (ModelMeError (''The type '' @ quote @ ''Person'' @ quote @ '' does not exist''))
   \<and> validate exampleHost (the_model shadowedModel) [PlainObj []] (Ref 0) ''Person'' =
       Inl (ModelMeError (''The type '' @ quote @ ''Person'' @ quote @ '' does not exist''))
   \<and> validate exampleHost (the_model personModel) personHeap Null ''Person'' =
       Inr (\<lparr>entity = Null,
              errors = [\<lparr>field = ''name'', message = Caught TypeError\<rparr>,
                        \<lparr>field = ''age'', message = Text ''must be defined''\<rparr>,
                        \<lparr>field = ''created'', message = Text ''must be defined''\<rparr>]\<rparr>,
            personHeap @
            [PlainObj [(''age'', Undefined), (''created'', Undefined), (''friends'', Ref 7)],
             ArrayObj []])"
  by code_simp



end
